theory Spec2Isabelle
  imports Main "HOL-Library.Sublist"
begin

section \<open>Python values, exceptions and string primitives\<close>

text \<open>
  The three spiders are Python generators over a Scrapy response.  An exception is a value
  of type \<open>error\<close>, and an expression that may raise has a value of type \<open>error + 'a\<close>.
  Strings are \<open>char list\<close>, a character standing for a code point below 256; a value that
  may be \<open>None\<close> is a \<open>string option\<close>.
\<close>

datatype error = ValueError | TypeError | AttributeError | KeyError

definition bindE :: "error + 'a \<Rightarrow> ('a \<Rightarrow> error + 'b) \<Rightarrow> error + 'b" where
  "bindE m f = (case m of Inl e \<Rightarrow> Inl e | Inr x \<Rightarrow> f x)"

text \<open>Truth value of an \<open>Optional[str]\<close>: \<open>None\<close> and the empty string are false.\<close>

definition truthy :: "string option \<Rightarrow> bool" where
  "truthy x = (case x of None \<Rightarrow> False | Some s \<Rightarrow> s \<noteq> [])"

text \<open>
  Calling a \<open>str\<close> method on a value (\<open>x.replace(...)\<close>) raises \<open>AttributeError\<close> when
  the value is \<open>None\<close>; handing \<open>None\<close> to an operation that needs a string
  (\<open>'(' in x\<close>, a helper working on text) raises \<open>TypeError\<close>.
\<close>

definition str_receiver :: "string option \<Rightarrow> error + string" where
  "str_receiver x = (case x of None \<Rightarrow> Inl AttributeError | Some s \<Rightarrow> Inr s)"

definition str_arg :: "string option \<Rightarrow> error + string" where
  "str_arg x = (case x of None \<Rightarrow> Inl TypeError | Some s \<Rightarrow> Inr s)"

text \<open>\<open>c in x\<close> for a one-character needle.\<close>

definition py_in :: "char \<Rightarrow> string option \<Rightarrow> error + bool" where
  "py_in c x = bindE (str_arg x) (\<lambda>s. Inr (c \<in> set s))"

text \<open>
  \<open>str.replace(old, new)\<close>: the non-overlapping occurrences of \<open>old\<close>, found from the
  left, are replaced.  With an empty \<open>old\<close> Python puts \<open>new\<close> before every character and
  at the end.
\<close>

fun replace_from :: "string \<Rightarrow> string \<Rightarrow> string \<Rightarrow> string" where
  "replace_from old new [] = []"
| "replace_from old new (c # cs) =
     (if old \<noteq> [] \<and> prefix old (c # cs)
      then new @ replace_from old new (drop (length old - 1) cs)
      else c # replace_from old new cs)"

definition replace :: "string \<Rightarrow> string \<Rightarrow> string \<Rightarrow> string" where
  "replace old new s =
     (if old = [] then new @ concat (map (\<lambda>c. c # new) s) else replace_from old new s)"

text \<open>
  \<open>str.strip()\<close> with no argument removes leading and trailing whitespace.  Among the
  code points below 256 Python counts twelve as whitespace: tab, line feed, vertical tab,
  form feed, carriage return, the four separators 0x1C..0x1F, the space, the next-line
  character 0x85 and the no-break space 0xA0.
\<close>

definition isspace :: "char \<Rightarrow> bool" where
  "isspace c = (c \<in> {CHR 0x09, CHR 0x0A, CHR 0x0B, CHR 0x0C, CHR 0x0D,
                      CHR 0x1C, CHR 0x1D, CHR 0x1E, CHR 0x1F, CHR 0x20, CHR 0x85, CHR 0xA0})"

definition strip :: "string \<Rightarrow> string" where
  "strip s = rev (dropWhile isspace (rev (dropWhile isspace s)))"

text \<open>\<open>sep.join(parts)\<close>.\<close>

fun join :: "string \<Rightarrow> string list \<Rightarrow> string" where
  "join sep [] = []"
| "join sep [x] = x"
| "join sep (x # y # ys) = x @ sep @ join sep (y # ys)"

text \<open>\<open>sub in s\<close> for strings: \<open>sub\<close> occurs somewhere in \<open>s\<close>.\<close>

fun contains_str :: "string \<Rightarrow> string \<Rightarrow> bool" where
  "contains_str sub [] = (sub = [])"
| "contains_str sub (c # cs) = (prefix sub (c # cs) \<or> contains_str sub cs)"


section \<open>The framework's objects\<close>

text \<open>
  A selector is what \<open>response.xpath(q)\<close> hands back for one matched node: \<open>.get()\<close>
  serialises the node, \<open>.xpath(q)\<close> queries below it.  The XPath evaluator belongs to the
  framework, so a document is given by the answers it returns to each query string.  The
  queries are written in the spiders (one of them around the configured year) and are taken
  to be well-formed: evaluating a query does not raise.
\<close>

datatype selector = Sel (sel_get: string) (sel_xpath: "string \<Rightarrow> selector list")

text \<open>\<open>SelectorList.get()\<close> and \<open>SelectorList.getall()\<close>.\<close>

definition get :: "selector list \<Rightarrow> string option" where
  "get sl = (case sl of [] \<Rightarrow> None | s # _ \<Rightarrow> Some (sel_get s))"

definition getall :: "selector list \<Rightarrow> string list" where
  "getall sl = map sel_get sl"

text \<open>
  A fetched page: its URL and status, the \<open>meta\<close> dictionary of the request that fetched it,
  the XPath evaluator over its body, and the method \<open>response.urljoin\<close>.  The method belongs
  to the framework and is taken as it comes, on whatever argument the spider hands it; it
  raises on a link it cannot parse (Python's \<open>urljoin\<close> raises \<open>ValueError\<close> on \<open>//[x\<close>).
\<close>

record response =
  url :: string
  status :: int
  meta :: "(string \<times> string) list"
  xpath :: "string \<Rightarrow> selector list"
  urljoin :: "string option \<Rightarrow> error + string"

text \<open>\<open>d[k]\<close> on a dictionary raises \<open>KeyError\<close> for a missing key.\<close>

definition subscript :: "(string \<times> string) list \<Rightarrow> string \<Rightarrow> error + string" where
  "subscript d k = (case map_of d k of None \<Rightarrow> Inl KeyError | Some v \<Rightarrow> Inr v)"

datatype callback =
  NdssParse | NdssParseYearPage | NdssParsePaperList | NdssParsePaperDetails
| OsdiParse | OsdiParsePaper
| UsenixParse | UsenixParsePresentation

record request =
  req_url :: string
  req_callback :: callback
  req_meta :: "(string \<times> string) list"
  dont_filter :: bool

text \<open>
  \<open>scrapy.Request(url, callback, meta, dont_filter)\<close> refuses a URL without a scheme:
  it raises \<open>ValueError\<close> (Missing scheme in request url) unless the URL contains \<open>://\<close>
  or starts with \<open>about:\<close> or \<open>data:\<close>.  The percent-escaping that the constructor
  applies to the URL it stores is left out: \<open>req_url\<close> is the URL it was handed.
\<close>

definition has_scheme :: "string \<Rightarrow> bool" where
  "has_scheme u = (contains_str ''://'' u \<or> prefix ''about:'' u \<or> prefix ''data:'' u)"

definition scrapy_Request ::
  "string \<Rightarrow> callback \<Rightarrow> (string \<times> string) list \<Rightarrow> bool \<Rightarrow> error + request" where
  "scrapy_Request u cb m df =
     (if has_scheme u
      then Inr \<lparr>req_url = u, req_callback = cb, req_meta = m, dont_filter = df\<rparr>
      else Inl ValueError)"

text \<open>
  \<open>response.follow(link, callback, meta, dont_filter)\<close> refuses \<open>None\<close> with a
  \<open>ValueError\<close>; otherwise it resolves the link with \<open>response.urljoin\<close> and builds the
  request from the result, so it raises where either of the two does.
\<close>

definition follow ::
  "response \<Rightarrow> string option \<Rightarrow> callback \<Rightarrow> (string \<times> string) list \<Rightarrow> bool
     \<Rightarrow> error + request" where
  "follow response link cb m df =
     (case link of
        None \<Rightarrow> Inl ValueError
      | Some l \<Rightarrow> bindE (urljoin response (Some l)) (\<lambda>u. scrapy_Request u cb m df))"

text \<open>The value of \<open>source_url\<close> is an integer in two spiders and a string in the third.\<close>

datatype pyval = PInt int | PStr string

record item =
  title :: string
  authors :: string
  abstract :: string
  abstract_url :: string
  pdf_url :: string
  file_urls :: "string list"
  source_url :: pyval

datatype emitted = Request request | Item item

datatype level = DEBUG | INFO | WARNING | ERROR

text \<open>A log line: its level and the text of the message as the source writes it.\<close>

datatype log = Log level string

text \<open>
  What running a handler (a generator) to its end gives: the log lines written, the objects
  yielded, both in order, and the exception that ended it, if one did.  What was logged and
  yielded before an exception stays.
\<close>

type_synonym outcome = "log list \<times> emitted list \<times> error option"

definition logged :: "outcome \<Rightarrow> log list" where
  "logged r = fst r"

definition yielded :: "outcome \<Rightarrow> emitted list" where
  "yielded r = fst (snd r)"

definition raised :: "outcome \<Rightarrow> error option" where
  "raised r = snd (snd r)"

definition raises :: "outcome \<Rightarrow> bool" where
  "raises r = (raised r \<noteq> None)"

text \<open>The statements \<open>self.logger.<level>(message)\<close> and \<open>yield x\<close>.\<close>

definition log_line :: "level \<Rightarrow> string \<Rightarrow> outcome" where
  "log_line lv m = ([Log lv m], [], None)"

definition yield_obj :: "emitted \<Rightarrow> outcome" where
  "yield_obj x = ([], [x], None)"

text \<open>
  One statement after another: the second runs only when the first raised nothing.
  \<open>run\<close> is a block of statements.
\<close>

definition andthen :: "outcome \<Rightarrow> outcome \<Rightarrow> outcome" where
  "andthen a b =
     (case raised a of
        Some e \<Rightarrow> a
      | None \<Rightarrow> (logged a @ logged b, yielded a @ yielded b, raised b))"

fun run :: "outcome list \<Rightarrow> outcome" where
  "run [] = ([], [], None)"
| "run (s # ss) = andthen s (run ss)"

text \<open>
  Evaluating an expression that may raise and going on with its value; when it raises, the
  generator ends there with that exception.
\<close>

definition compute :: "error + 'a \<Rightarrow> ('a \<Rightarrow> outcome) \<Rightarrow> outcome" where
  "compute m k = (case m of Inl e \<Rightarrow> ([], [], Some e) | Inr v \<Rightarrow> k v)"

text \<open>
  A \<open>for\<close> loop: the iterations one after another; an exception in one iteration ends
  the loop.
\<close>

definition for_each :: "('a \<Rightarrow> outcome) \<Rightarrow> 'a list \<Rightarrow> outcome" where
  "for_each body xs = run (map body xs)"

text \<open>
  The spider object: the two identifiers stored by \<open>BaseSpider.__init__\<close> and the three
  text helpers inherited from \<open>BaseSpider\<close>, whose bodies are not part of these sources.
\<close>

record spider =
  conference :: string
  year :: string
  clean_quotes :: "string \<Rightarrow> string"
  clean_html_tags :: "string \<Rightarrow> string"
  clean_extra_whitespaces :: "string \<Rightarrow> string"

text \<open>The records among the objects a handler yielded, and the requests among them.\<close>

fun items_of :: "emitted list \<Rightarrow> item list" where
  "items_of [] = []"
| "items_of (Item i # os) = i # items_of os"
| "items_of (Request q # os) = items_of os"

fun requests_of :: "emitted list \<Rightarrow> request list" where
  "requests_of [] = []"
| "requests_of (Request q # os) = q # requests_of os"
| "requests_of (Item i # os) = requests_of os"


section \<open>NDSSSpider (ndss.py)\<close>

text \<open>
  \<open>BaseSpider.__init__\<close> is not part of these sources; the constructors take it as a
  parameter \<open>base_init\<close>, which may itself raise.  An argument left out is \<open>None\<close> here and
  takes the default of the signature.
\<close>

definition default_arg :: "string \<Rightarrow> string option \<Rightarrow> string" where
  "default_arg d a = (case a of None \<Rightarrow> d | Some v \<Rightarrow> v)"

definition NDSSSpider_init ::
  "(string \<Rightarrow> string \<Rightarrow> error + spider) \<Rightarrow> string option \<Rightarrow> string option
     \<Rightarrow> error + spider" where
  "NDSSSpider_init base_init conference_arg year_arg =
     (let conference = default_arg ''ndss'' conference_arg;
          year = default_arg [] year_arg
      in bindE (base_init conference year) (\<lambda>self.
         if year = [] then Inl ValueError else Inr self))"

definition ndss_year_query :: "string \<Rightarrow> string" where
  \<open>ndss_year_query y =
     ''//a[contains(@class, "wp-block-button__link") and normalize-space()="'' @ y @ ''"]/@href''\<close>

definition ndss_parse :: "spider \<Rightarrow> response \<Rightarrow> outcome" where
  "ndss_parse self response =
     (let year_link = get (xpath response (ndss_year_query (year self)))
      in run
        [log_line INFO ''Searching for year {self.year} on {response.url}'',
         log_line DEBUG ''Year link found with primary XPat: {year_link}'',
         if truthy year_link
         then run
           [log_line INFO ''Found link for {self.year}: {year_link}'',
            compute (follow response year_link NdssParseYearPage [(''year'', year self)] False)
              (\<lambda>q. yield_obj (Request q))]
         else log_line ERROR
                ''Could not find a link for the year {self.year} on the main page.''])"

text \<open>The detail links of a list page: the primary selector, else the one for older years.\<close>

definition ndss_paper_links :: "response \<Rightarrow> string list" where
  \<open>ndss_paper_links response =
     (let links = getall (xpath response ''//a[@class="paper-link-abs"]/@href'')
      in if links = []
         then getall (xpath response ''//a[strong[text()="Read More"]]/@href'')
         else links)\<close>

definition ndss_parse_paper_list :: "spider \<Rightarrow> response \<Rightarrow> outcome" where
  \<open>ndss_parse_paper_list self response =
     (let links = ndss_paper_links response
      in run
        [log_line INFO ''Parsing paper list on {response.url}'',
         if getall (xpath response ''//a[@class="paper-link-abs"]/@href'') = []
         then log_line INFO
                ''Primary selector failed, trying fallback selector for older years.''
         else run [],
         if links = []
         then log_line ERROR
                ''Could not find any paper detail links on {response.url}. Spider stopping.''
         else run
           [log_line INFO ''Found {len(links)} paper links to follow.'',
            for_each
              (\<lambda>link. compute
                 (follow response (Some link) NdssParsePaperDetails (meta response) False)
                 (\<lambda>q. yield_obj (Request q)))
              links]])\<close>

definition ndss_accepted_query :: string where
  \<open>ndss_accepted_query = ''//a[strong[contains(text(), "Accepted Papers")]]/@href''\<close>

definition ndss_parse_year_page :: "spider \<Rightarrow> response \<Rightarrow> outcome" where
  \<open>ndss_parse_year_page self response =
     (let accepted_papers_link = get (xpath response ndss_accepted_query)
      in run
        [log_line INFO ''Searching for 'Accepted Papers' link on {response.url}'',
         if truthy accepted_papers_link
         then compute
                (follow response accepted_papers_link NdssParsePaperList (meta response) False)
                (\<lambda>q. yield_obj (Request q))
         else run
           [log_line WARNING
              (''No 'Accepted Papers' link found on {response.url}. '' @
               ''Assuming this is the paper list page and proceeding.''),
            ndss_parse_paper_list self response]])\<close>

text \<open>The four extraction steps of \<open>parse_paper_details\<close>, in the order of the source.\<close>

definition ndss_authors :: "response \<Rightarrow> error + string option" where
  \<open>ndss_authors response =
     (let authors = get (xpath response ''//p/strong/text()'') in
      bindE (if \<not> truthy authors then Inr True
             else bindE (py_in CHR ''('' authors) (\<lambda>b. Inr (\<not> b)))
        (\<lambda>use_fallback.
           if use_fallback
           then (let authors_raw = getall (xpath response ''//p[@class="ndss_authors"]//text()'')
                 in Inr (Some (strip (replace ''Author(s):'' [] (concat authors_raw)))))
           else Inr authors))\<close>

definition ndss_abstract :: "response \<Rightarrow> string" where
  \<open>ndss_abstract response =
     (let abstract_parts0 = getall (xpath response ''//strong/following-sibling::p/text()'');
          abstract_parts =
            (if abstract_parts0 = []
             then getall (xpath response
                    ''//h2[contains(text(), "Abstract")]/following-sibling::p/text()'')
             else abstract_parts0)
      in join '' '' (map strip abstract_parts))\<close>

definition ndss_pdf_url :: "response \<Rightarrow> string option" where
  \<open>ndss_pdf_url response =
     (let pdf_url = get (xpath response ''//a[contains(@class, "pdf-button")]/@href'')
      in if \<not> truthy pdf_url
         then get (xpath response ''//p[@class="ndss_downloads"]//a/@href'')
         else pdf_url)\<close>

definition ndss_title_query :: string where
  \<open>ndss_title_query = ''//meta[@property="og:title"]/@content''\<close>

definition ndss_title :: "spider \<Rightarrow> string option \<Rightarrow> error + string" where
  "ndss_title self title' =
     (if truthy title'
      then bindE (str_receiver title') (\<lambda>t.
             Inr (clean_quotes self (strip (replace ''- NDSS Symposium'' [] t))))
      else Inr [])"

definition ndss_parse_paper_details :: "spider \<Rightarrow> response \<Rightarrow> outcome" where
  \<open>ndss_parse_paper_details self response =
     (let title' = get (xpath response ndss_title_query);
          abstract' = ndss_abstract response;
          pdf_url' = ndss_pdf_url response
      in run
        [log_line INFO ''Extracting details from {response.url}'',
         compute (ndss_authors response) (\<lambda>authors'.
         compute (ndss_title self title') (\<lambda>item_title.
         compute (if truthy authors'
                  then bindE (str_arg authors') (\<lambda>a. Inr (strip (clean_html_tags self a)))
                  else Inr []) (\<lambda>item_authors.
         compute (if truthy pdf_url' then urljoin response pdf_url' else Inr [])
           (\<lambda>full_pdf_url.
         yield_obj
           (Item \<lparr>title = item_title, authors = item_authors,
                  abstract = (if abstract' \<noteq> [] then clean_extra_whitespaces self abstract'
                              else []),
                  abstract_url = url response, pdf_url = full_pdf_url,
                  file_urls = (if full_pdf_url \<noteq> [] then [full_pdf_url] else []),
                  source_url = PInt 13\<rparr>)))))])\<close>


section \<open>OsdiSpider (osdi.py)\<close>

text \<open>The conditional expressions \<open>x if x else ''\<close> and \<open>[x] if x else []\<close>.\<close>

definition or_empty :: "string option \<Rightarrow> string" where
  "or_empty x = (if truthy x then (case x of Some s \<Rightarrow> s | None \<Rightarrow> []) else [])"

definition singleton_if :: "string option \<Rightarrow> string list" where
  "singleton_if x = (if truthy x then (case x of Some s \<Rightarrow> [s] | None \<Rightarrow> []) else [])"

definition OsdiSpider_init ::
  "(string \<Rightarrow> string \<Rightarrow> error + spider) \<Rightarrow> string option \<Rightarrow> string option
     \<Rightarrow> error + spider" where
  "OsdiSpider_init base_init conference_arg year_arg =
     base_init (default_arg ''osdi'' conference_arg) (default_arg ''2023'' year_arg)"

definition citation_pdf_query :: string where
  \<open>citation_pdf_query = ''//meta[@name="citation_pdf_url"]/@content''\<close>

definition osdi_links_query :: string where
  \<open>osdi_links_query =
     ''//a[contains(@href, "/presentation") or contains(@href, "/presentations")]/@href''\<close>

definition osdi_parse_paper :: "spider \<Rightarrow> response \<Rightarrow> outcome" where
  \<open>osdi_parse_paper self response =
     (let title' = get (xpath response ''//meta[@name="citation_title"]/@content'');
          authors' = getall (xpath response ''//meta[@name="citation_author"]/@content'');
          abstract' = get (xpath response ''//meta[@name="description"]/@content'');
          pdf_url' = get (xpath response citation_pdf_query)
      in
      compute (if truthy title'
               then bindE (str_arg title') (\<lambda>t. Inr (clean_html_tags self t))
               else Inr []) (\<lambda>item_title.
      compute (if truthy abstract'
               then bindE (str_arg abstract') (\<lambda>a. Inr (clean_html_tags self a))
               else Inr []) (\<lambda>item_abstract.
      yield_obj
        (Item \<lparr>title = item_title,
               authors = (if authors' \<noteq> [] then join '', '' authors' else []),
               abstract = item_abstract,
               abstract_url = url response,
               pdf_url = or_empty pdf_url',
               file_urls = singleton_if pdf_url',
               source_url = PStr (url response)\<rparr>))))\<close>

definition osdi_parse :: "spider \<Rightarrow> response \<Rightarrow> outcome" where
  \<open>osdi_parse self response =
     (let paper_links = getall (xpath response osdi_links_query)
      in run
        [log_line INFO ''Successfully fetched page: {response.url}'',
         if paper_links \<noteq> []
         then run
           [log_line INFO ''Found {len(paper_links)} research paper links'',
            for_each
              (\<lambda>paper_url.
                 compute (urljoin response (Some paper_url)) (\<lambda>abs_url.
                 compute (scrapy_Request abs_url OsdiParsePaper [] True) (\<lambda>q.
                 yield_obj (Request q))))
              paper_links]
         else osdi_parse_paper self response])\<close>


section \<open>UsenixSpider (usenix.py)\<close>

definition UsenixSpider_init ::
  "(string \<Rightarrow> string \<Rightarrow> error + spider) \<Rightarrow> string option \<Rightarrow> string option
     \<Rightarrow> error + spider" where
  "UsenixSpider_init base_init conference_arg year_arg =
     base_init (default_arg [] conference_arg) (default_arg [] year_arg)"










text \<open>The PDF link of a presentation page, before it is resolved: the meta tag, else the
  link of the final-paper field.\<close>

definition usenix_pdf_link :: "response \<Rightarrow> string option" where
  \<open>usenix_pdf_link response =
     (let pdf_url' = get (xpath response citation_pdf_query)
      in if \<not> truthy pdf_url'
         then get (xpath response
                ''//div[contains(@class,"field-name-field-final-paper-pdf")]//a/@href'')
         else pdf_url')\<close>

definition usenix_parse_presentation :: "spider \<Rightarrow> response \<Rightarrow> outcome" where
  \<open>usenix_parse_presentation self response =
     (let pdf_link = usenix_pdf_link response
      in run
        [log_line INFO ''Processing presentation page: {response.url}'',
         compute (if truthy pdf_link
                  then bindE (urljoin response pdf_link) (\<lambda>u. Inr (Some u))
                  else Inr pdf_link) (\<lambda>pdf_url'.
         run
           [if truthy pdf_link then log_line INFO ''Found PDF URL: {pdf_url}''
            else log_line WARNING ''No PDF URL found for: {response.url}'',
            compute (subscript (meta response) ''title'') (\<lambda>t.
            compute (subscript (meta response) ''authors'') (\<lambda>a.
            compute (subscript (meta response) ''abstract'') (\<lambda>b.
            compute (subscript (meta response) ''abstract_url'') (\<lambda>u.
            run
              [log_line INFO ''Yielding item for: {item["title"]}'',
               yield_obj
                 (Item \<lparr>title = t, authors = a, abstract = b, abstract_url = u,
                        pdf_url = or_empty pdf_url',
                        file_urls = singleton_if pdf_url',
                        source_url = PInt 12\<rparr>)]))))])])\<close>



section \<open>Notions used in the statements\<close>

text \<open>
  The framework resolves a link when \<open>response.urljoin\<close> does not raise on it, and accepts
  it when, in addition, a request can be built from the resolved URL: that is when
  \<open>response.follow\<close> succeeds on it.
\<close>

definition resolves :: "response \<Rightarrow> string option \<Rightarrow> bool" where
  "resolves r l = (case urljoin r l of Inl e \<Rightarrow> False | Inr u \<Rightarrow> True)"

definition accepted :: "response \<Rightarrow> string option \<Rightarrow> bool" where
  "accepted r l =
     (case l of
        None \<Rightarrow> False
      | Some x \<Rightarrow> (case urljoin r (Some x) of Inl e \<Rightarrow> False | Inr u \<Rightarrow> has_scheme u))"

text \<open>
  The PDF URL of a presentation page as \<open>parse_presentation\<close> computes it: the link,
  resolved when there is one.
\<close>

definition usenix_pdf_url :: "response \<Rightarrow> error + string option" where
  "usenix_pdf_url r =
     (if truthy (usenix_pdf_link r)
      then bindE (urljoin r (usenix_pdf_link r)) (\<lambda>u. Inr (Some u))
      else Inr (usenix_pdf_link r))"

text \<open>
  The title as the specification words it: a trailing venue suffix is taken off the tag's
  content, quotes are normalised, surrounding whitespace is stripped.  This definition follows
  the specification, not the source; it is compared with what \<open>ndss_title\<close> computes.
\<close>

definition strip_trailing :: "string \<Rightarrow> string \<Rightarrow> string" where
  "strip_trailing suf s = (if suffix suf s then take (length s - length suf) s else s)"

definition title_as_specified :: "(string \<Rightarrow> string) \<Rightarrow> string \<Rightarrow> string" where
  "title_as_specified normalise_quotes c =
     strip (normalise_quotes (strip_trailing ''- NDSS Symposium'' c))"

text \<open>
  An absolute URL starts with a scheme: a letter, then letters, digits, \<open>+\<close>, \<open>-\<close> or
  \<open>.\<close>, up to a colon.
\<close>

definition scheme_chars :: string where
  "scheme_chars = ''abcdefghijklmnopqrstuvwxyzABCDEFGHIJKLMNOPQRSTUVWXYZ0123456789+-.''"

definition is_absolute_url :: "string \<Rightarrow> bool" where
  "is_absolute_url u =
     (let s = takeWhile (\<lambda>c. c \<noteq> CHR '':'') u
      in s \<noteq> [] \<and> length s < length u \<and> hd s \<in> set (take 52 scheme_chars)
         \<and> list_all (\<lambda>c. c \<in> set scheme_chars) s)"


section \<open>Example pages\<close>

text \<open>
  Concrete spiders, pages and blocks on which the handlers are evaluated.  The helpers of
  \<open>plain_spider\<close> leave their argument unchanged.  \<open>site_urljoin\<close> resolves as Python's
  \<open>urljoin\<close> does on these links: a link with a scheme of its own (\<open>mailto:\<close>) comes back
  unchanged, a root-relative link is put after the site.
\<close>

definition leaf :: "string \<Rightarrow> selector" where
  "leaf s = Sel s (\<lambda>q. [])"

definition plain_spider :: spider where
  "plain_spider = \<lparr>conference = ''ndss'', year = ''2025'', clean_quotes = (\<lambda>s. s),
     clean_html_tags = (\<lambda>s. s), clean_extra_whitespaces = (\<lambda>s. s)\<rparr>"

definition storing_init :: "string \<Rightarrow> string \<Rightarrow> error + spider" where
  "storing_init c y = Inr \<lparr>conference = c, year = y, clean_quotes = (\<lambda>s. s),
     clean_html_tags = (\<lambda>s. s), clean_extra_whitespaces = (\<lambda>s. s)\<rparr>"

definition site_urljoin :: "string \<Rightarrow> string option \<Rightarrow> error + string" where
  "site_urljoin site l =
     (case l of
        None \<Rightarrow> Inr site
      | Some u \<Rightarrow> if is_absolute_url u then Inr u else Inr (site @ u))"


definition ndss_list_page :: response where
  \<open>ndss_list_page =
     \<lparr>url = ''https://www.ndss-symposium.org/ndss2025/accepted-papers/'', status = 200,
      meta = [(''year'', ''2025'')],
      xpath = (\<lambda>q. if q = ''//a[@class="paper-link-abs"]/@href''
                   then [leaf ''/ndss-paper/a/'', leaf ''/ndss-paper/b/'']
                   else []),
      urljoin = site_urljoin ''https://www.ndss-symposium.org''\<rparr>\<close>

definition ndss_detail_page :: "string \<Rightarrow> response" where
  \<open>ndss_detail_page og_title =
     \<lparr>url = ''https://www.ndss-symposium.org/ndss-paper/hello/'', status = 200,
      meta = [(''year'', ''2025'')],
      xpath = (\<lambda>q. if q = ndss_title_query then [leaf og_title]
                   else if q = ''//a[contains(@class, "pdf-button")]/@href''
                   then [leaf ''/wp-content/uploads/hello.pdf'']
                   else []),
      urljoin = site_urljoin ''https://www.ndss-symposium.org''\<rparr>\<close>

definition osdi_paper_page :: "string \<Rightarrow> response" where
  \<open>osdi_paper_page name =
     \<lparr>url = ''https://www.usenix.org/conference/osdi23/presentation/'' @ name, status = 200,
      meta = [],
      xpath = (\<lambda>q. if q = citation_pdf_query
                   then [leaf (''/system/files/osdi23-'' @ name @ ''.pdf'')]
                   else if q = ''//meta[@name="citation_title"]/@content''
                   then [leaf ''A Paper'']
                   else []),
      urljoin = site_urljoin ''https://www.usenix.org''\<rparr>\<close>







definition hello_item :: item where
  "hello_item = \<lparr>title = ''Hello'', authors = [], abstract = [],
     abstract_url = ''https://www.ndss-symposium.org/ndss-paper/hello/'',
     pdf_url = ''https://www.ndss-symposium.org/wp-content/uploads/hello.pdf'',
     file_urls = [''https://www.ndss-symposium.org/wp-content/uploads/hello.pdf''],
     source_url = PInt 13\<rparr>"



section \<open>Basic facts about the primitives\<close>

lemma bindE_simps [simp]: "bindE (Inr x) f = f x" "bindE (Inl e) f = Inl e"
  by (simp_all add: bindE_def)

lemma outcome_proj [simp]:
  "logged (lg, outs, e) = lg" "yielded (lg, outs, e) = outs" "raised (lg, outs, e) = e"
  by (simp_all add: logged_def yielded_def raised_def)

lemma log_line_proj [simp]:
  "logged (log_line lv m) = [Log lv m]" "yielded (log_line lv m) = []" "raised (log_line lv m) = None"
  by (simp_all add: log_line_def)

lemma yield_obj_proj [simp]:
  "logged (yield_obj x) = []" "yielded (yield_obj x) = [x]" "raised (yield_obj x) = None"
  by (simp_all add: yield_obj_def)

lemma andthen_proj [simp]:
  "raised (andthen a b) = (if raised a = None then raised b else raised a)"
  "yielded (andthen a b) = (if raised a = None then yielded a @ yielded b else yielded a)"
  "logged (andthen a b) = (if raised a = None then logged a @ logged b else logged a)"
  by (auto simp: andthen_def split: option.splits)

lemma compute_simps [simp]:
  "compute (Inr v) k = k v" "compute (Inl e) k = ([], [], Some e)"
  by (simp_all add: compute_def)

lemma raises_iff: "raises r = (raised r \<noteq> None)"
  by (simp add: raises_def)


lemma str_arg_truthy: "truthy x \<Longrightarrow> str_arg x = Inr (the x)"
  by (cases x) (simp_all add: truthy_def str_arg_def)

lemma or_empty_singleton:
  "(singleton_if x \<noteq> []) = (or_empty x \<noteq> []) \<and> (singleton_if x \<noteq> [] \<longrightarrow> singleton_if x = [or_empty x])"
  by (cases x) (simp_all add: singleton_if_def or_empty_def truthy_def)



text \<open>
  A loop whose iterations raise nothing runs to its end and yields what they yield; what a
  loop yields comes from one of its iterations; an iteration that yields nothing and raises
  nothing can be left out.
\<close>

lemma for_each_simps [simp]:
  "for_each body [] = ([], [], None)"
  "for_each body (x # xs) = andthen (body x) (for_each body xs)"
  by (simp_all add: for_each_def)




text \<open>
  When the only occurrence of \<open>old\<close> is the one at the end, \<open>replace\<close> takes exactly that
  one off.
\<close>

lemma replace_from_only_at_end:
  assumes "old \<noteq> []" and "\<forall>i<length t. \<not> prefix old (drop i (t @ old))"
  shows "replace_from old new (t @ old) = t @ new"
  using assms(2)
proof (induction t)
  case Nil
  from assms(1) obtain c cs where "old = c # cs" by (cases old) auto
  then show ?case by simp
next
  case (Cons a t)
  from Cons.prems have "\<not> prefix old (drop 0 ((a # t) @ old))" by blast
  then have np: "\<not> prefix old (a # t @ old)" by simp
  have "\<forall>i<length t. \<not> prefix old (drop i (t @ old))"
  proof (intro allI impI)
    fix i assume "i < length t"
    then have "Suc i < length (a # t)" by simp
    with Cons.prems have "\<not> prefix old (drop (Suc i) ((a # t) @ old))" by blast
    then show "\<not> prefix old (drop i (t @ old))" by simp
  qed
  with Cons.IH have "replace_from old new (t @ old) = t @ new" by blast
  with np show ?case by simp
qed


section \<open>What each handler returns\<close>

text \<open>
  The guards of the source (\<open>if title\<close>, \<open>not authors or ...\<close>, \<open>if pdf_url\<close>) keep every
  operation that needs a string away from \<open>None\<close>.
\<close>

lemma ndss_authors_total: "\<exists>a. ndss_authors r = Inr a"
  by (auto simp: ndss_authors_def py_in_def Let_def str_arg_truthy)

lemma ndss_title_eq:
  "ndss_title self x = Inr (case x of None \<Rightarrow> []
       | Some c \<Rightarrow> if c = [] then []
                  else clean_quotes self (strip (replace ''- NDSS Symposium'' [] c)))"
  by (cases x) (simp_all add: ndss_title_def truthy_def str_receiver_def)





lemma ndss_parse_year_page_fallback:
  assumes "\<not> truthy (get (xpath r ndss_accepted_query))"
  shows "yielded (ndss_parse_year_page self r) = yielded (ndss_parse_paper_list self r)
       \<and> raised (ndss_parse_year_page self r) = raised (ndss_parse_paper_list self r)"
  using assms by (simp add: ndss_parse_year_page_def Let_def)


text \<open>
  \<open>parse_paper_details\<close> yields one record, unless \<open>response.urljoin\<close> raises on the
  PDF link.
\<close>

lemma ndss_details_result:
  "\<exists>a. (case (if truthy (ndss_pdf_url r) then urljoin r (ndss_pdf_url r) else Inr []) of
          Inl e \<Rightarrow> yielded (ndss_parse_paper_details self r) = []
                   \<and> raised (ndss_parse_paper_details self r) = Some e
        | Inr full \<Rightarrow>
            yielded (ndss_parse_paper_details self r) =
              [Item \<lparr>title = (case get (xpath r ndss_title_query) of None \<Rightarrow> []
                          | Some c \<Rightarrow> if c = [] then []
                              else clean_quotes self (strip (replace ''- NDSS Symposium'' [] c))),
                     authors = a,
                     abstract = (if ndss_abstract r \<noteq> []
                                 then clean_extra_whitespaces self (ndss_abstract r) else []),
                     abstract_url = url r, pdf_url = full,
                     file_urls = (if full \<noteq> [] then [full] else []),
                     source_url = PInt 13\<rparr>]
            \<and> raised (ndss_parse_paper_details self r) = None)"
proof -
  obtain au where au: "ndss_authors r = Inr au" using ndss_authors_total by blast
  show ?thesis
    by (rule exI [of _ "if truthy au then strip (clean_html_tags self (the au)) else []"])
       (simp add: ndss_parse_paper_details_def au ndss_title_eq Let_def str_arg_truthy
             split: sum.splits)
qed

lemma ndss_details_items:
  assumes "Item it \<in> set (yielded (ndss_parse_paper_details self r))"
  shows "\<exists>a full. it = \<lparr>title = (case get (xpath r ndss_title_query) of None \<Rightarrow> []
                          | Some c \<Rightarrow> if c = [] then []
                              else clean_quotes self (strip (replace ''- NDSS Symposium'' [] c))),
                     authors = a,
                     abstract = (if ndss_abstract r \<noteq> []
                                 then clean_extra_whitespaces self (ndss_abstract r) else []),
                     abstract_url = url r, pdf_url = full,
                     file_urls = (if full \<noteq> [] then [full] else []),
                     source_url = PInt 13\<rparr>
     \<and> (if truthy (ndss_pdf_url r) then urljoin r (ndss_pdf_url r) else Inr []) = Inr full"
proof (cases "if truthy (ndss_pdf_url r) then urljoin r (ndss_pdf_url r) else Inr []")
  case (Inl e)
  with ndss_details_result [where r = r and self = self] assms show ?thesis by auto
next
  case (Inr full)
  with ndss_details_result [where r = r and self = self] assms show ?thesis by auto
qed

lemma ndss_details_emits:
  assumes "truthy (ndss_pdf_url r) \<longrightarrow> resolves r (ndss_pdf_url r)"
  shows "\<exists>it. yielded (ndss_parse_paper_details self r) = [Item it]
            \<and> raised (ndss_parse_paper_details self r) = None"
proof -
  have "\<exists>full. (if truthy (ndss_pdf_url r) then urljoin r (ndss_pdf_url r) else Inr []) = Inr full"
  proof (cases "truthy (ndss_pdf_url r)")
    case True
    with assms show ?thesis by (auto simp: resolves_def split: sum.splits)
  next
    case False
    then show ?thesis by simp
  qed
  then obtain full
    where "(if truthy (ndss_pdf_url r) then urljoin r (ndss_pdf_url r) else Inr []) = Inr full"
    by blast
  with ndss_details_result [where r = r and self = self] show ?thesis by auto
qed

text \<open>
  \<open>OsdiSpider.parse_paper\<close> always yields exactly one record.
\<close>

lemma osdi_paper_emits:
  "\<exists>t b. osdi_parse_paper self r =
     yield_obj (Item \<lparr>title = t,
                  authors = (if getall (xpath r ''//meta[@name=\"citation_author\"]/@content'') \<noteq> []
                             then join '', '' (getall (xpath r ''//meta[@name=\"citation_author\"]/@content'')) else []),
                  abstract = b,
                  abstract_url = url r,
                  pdf_url = or_empty (get (xpath r citation_pdf_query)),
                  file_urls = singleton_if (get (xpath r citation_pdf_query)),
                  source_url = PStr (url r)\<rparr>)"
  by (auto simp: osdi_parse_paper_def Let_def str_arg_truthy)











text \<open>
  \<open>parse_presentation\<close> reads four keys of \<open>response.meta\<close>; when they are there and
  the PDF link resolves, it yields exactly one record, built from them and the PDF link.
\<close>

lemma usenix_presentation_items:
  assumes "Item it \<in> set (yielded (usenix_parse_presentation self d))"
  shows "\<exists>t a b u p. map_of (meta d) ''title'' = Some t \<and> map_of (meta d) ''authors'' = Some a
     \<and> map_of (meta d) ''abstract'' = Some b \<and> map_of (meta d) ''abstract_url'' = Some u
     \<and> usenix_pdf_url d = Inr p
     \<and> it = \<lparr>title = t, authors = a, abstract = b, abstract_url = u,
              pdf_url = or_empty p, file_urls = singleton_if p, source_url = PInt 12\<rparr>"
proof (cases "usenix_pdf_url d")
  case (Inl e)
  with assms show ?thesis
    by (simp add: usenix_parse_presentation_def Let_def usenix_pdf_url_def)
next
  case (Inr p)
  with assms show ?thesis
    by (auto simp: usenix_parse_presentation_def Let_def usenix_pdf_url_def subscript_def
             split: option.splits if_splits)
qed



text \<open>
  In \<open>NDSSSpider\<close> and \<open>UsenixSpider\<close> the field \<open>source_url\<close> is a constant, and
  \<open>pdf_url\<close> is empty or a result of \<open>response.urljoin\<close>.
\<close>

lemma ndss_source_url_constant:
  "Item it \<in> set (yielded (ndss_parse_paper_details self r)) \<Longrightarrow> source_url it = PInt 13"
  using ndss_details_items [of it self r] by auto

lemma usenix_source_url_constant:
  "Item it \<in> set (yielded (usenix_parse_presentation self r)) \<Longrightarrow> source_url it = PInt 12"
  using usenix_presentation_items [of it self r] by auto

lemma ndss_pdf_url_resolved:
  assumes "\<forall>l u. urljoin r l = Inr u \<longrightarrow> is_absolute_url u"
    and "Item it \<in> set (yielded (ndss_parse_paper_details self r))"
  shows "pdf_url it = [] \<or> is_absolute_url (pdf_url it)"
  using assms ndss_details_items [of it self r] by (auto split: if_splits)

lemma usenix_pdf_url_resolved:
  assumes "\<forall>l u. urljoin r l = Inr u \<longrightarrow> is_absolute_url u"
    and "Item it \<in> set (yielded (usenix_parse_presentation self r))"
  shows "pdf_url it = [] \<or> is_absolute_url (pdf_url it)"
proof -
  from usenix_presentation_items [OF assms(2)] obtain p
    where p: "usenix_pdf_url r = Inr p" and i: "pdf_url it = or_empty p" by auto
  show ?thesis
  proof (cases "truthy (usenix_pdf_link r)")
    case True
    with p obtain u where "urljoin r (usenix_pdf_link r) = Inr u" "p = Some u"
      by (auto simp: usenix_pdf_url_def bindE_def split: sum.splits)
    with assms(1) i show ?thesis by (auto simp: or_empty_def truthy_def)
  next
    case False
    with p i show ?thesis by (auto simp: usenix_pdf_url_def or_empty_def)
  qed
qed


section \<open>The properties of the specification\<close>

text \<open>
  C1. For every page handled by \<open>NDSSSpider.parse_paper_details\<close>,
  \<open>OsdiSpider.parse_paper\<close> or \<open>UsenixSpider.parse_presentation\<close>, every record yielded has
  \<open>file_urls\<close> non-empty exactly when \<open>pdf_url\<close> is non-empty, and then \<open>file_urls\<close> is the
  one-element list holding \<open>pdf_url\<close>.
\<close>

theorem file_urls_consistent:
  assumes "Item it \<in> set (yielded (ndss_parse_paper_details self r))
         \<or> Item it \<in> set (yielded (osdi_parse_paper self r))
         \<or> Item it \<in> set (yielded (usenix_parse_presentation self r))"
  shows "(file_urls it \<noteq> []) = (pdf_url it \<noteq> [])
       \<and> (file_urls it \<noteq> [] \<longrightarrow> file_urls it = [pdf_url it])"
proof -
  consider (a) "Item it \<in> set (yielded (ndss_parse_paper_details self r))"
    | (b) "Item it \<in> set (yielded (osdi_parse_paper self r))"
    | (c) "Item it \<in> set (yielded (usenix_parse_presentation self r))"
    using assms by blast
  then show ?thesis
  proof cases
    case a
    with ndss_details_items [of it self r] show ?thesis by (auto split: if_splits)
  next
    case b
    with osdi_paper_emits [of self r] or_empty_singleton show ?thesis by auto
  next
    case c
    with usenix_presentation_items [of it self r] or_empty_singleton show ?thesis by auto
  qed
qed

theorem file_urls_consistent_witness:
  "yielded (ndss_parse_paper_details plain_spider (ndss_detail_page ''Hello - NDSS Symposium''))
     = [Item hello_item]
   \<and> (file_urls hello_item \<noteq> []) = (pdf_url hello_item \<noteq> [])
   \<and> file_urls hello_item = [pdf_url hello_item]"
proof -
  have e: "yielded (ndss_parse_paper_details plain_spider (ndss_detail_page ''Hello - NDSS Symposium''))
     = [Item hello_item]"
    by code_simp
  then have m: "Item hello_item \<in> set (yielded (ndss_parse_paper_details plain_spider
      (ndss_detail_page ''Hello - NDSS Symposium'')))" by simp
  have n: "file_urls hello_item \<noteq> []" by (simp add: hello_item_def)
  from file_urls_consistent [OF disjI1 [OF m]] e n show ?thesis by simp
qed

text \<open>
  C2. The specification has \<open>source_url\<close> as a constant tag of the spider, never a URL
  taken from the page.  \<open>OsdiSpider.parse_paper\<close> stores \<open>response.url\<close> there: two paper
  pages give two different values, each the URL of its page.
\<close>

theorem osdi_source_url_is_page_url:
  "map source_url (items_of (yielded (osdi_parse_paper plain_spider (osdi_paper_page ''li''))))
     = [PStr ''https://www.usenix.org/conference/osdi23/presentation/li'']
   \<and> map source_url (items_of (yielded (osdi_parse_paper plain_spider (osdi_paper_page ''wu''))))
     = [PStr ''https://www.usenix.org/conference/osdi23/presentation/wu'']"
  by code_simp

text \<open>
  C3. The specification has \<open>pdf_url\<close> empty or an absolute URL, a relative link being
  resolved against the page.  \<open>OsdiSpider.parse_paper\<close> stores the content of the
  \<open>citation_pdf_url\<close> tag as it stands: a root-relative link stays relative.
\<close>

theorem osdi_pdf_url_not_resolved:
  "map pdf_url (items_of (yielded (osdi_parse_paper plain_spider (osdi_paper_page ''li''))))
     = [''/system/files/osdi23-li.pdf'']
   \<and> \<not> is_absolute_url ''/system/files/osdi23-li.pdf''"
  by code_simp




text \<open>
  C5. On a landing page where the query for the anchor of the configured year finds nothing,
  \<open>NDSSSpider.parse\<close> raises nothing, yields neither a request nor a record, and logs an
  error.
\<close>

theorem ndss_parse_no_year_anchor:
  assumes "xpath r (ndss_year_query (year self)) = []"
  shows "\<not> raises (ndss_parse self r) \<and> yielded (ndss_parse self r) = []
       \<and> (\<exists>m. Log ERROR m \<in> set (logged (ndss_parse self r)))"
  using assms by (simp add: ndss_parse_def Let_def get_def truthy_def raises_iff)

theorem ndss_parse_no_year_anchor_witness:
  "xpath ndss_list_page (ndss_year_query (year plain_spider)) = []
   \<and> \<not> raises (ndss_parse plain_spider ndss_list_page)
   \<and> yielded (ndss_parse plain_spider ndss_list_page) = []
   \<and> (\<exists>m. Log ERROR m \<in> set (logged (ndss_parse plain_spider ndss_list_page)))"
proof -
  have h: "xpath ndss_list_page (ndss_year_query (year plain_spider)) = []"
    by (simp add: ndss_list_page_def ndss_year_query_def plain_spider_def)
  from ndss_parse_no_year_anchor [OF h] h show ?thesis by blast
qed

text \<open>
  C6. On a year page where the query for the "Accepted Papers" anchor finds nothing,
  \<open>NDSSSpider.parse_year_page\<close> behaves as \<open>parse_paper_list\<close> does on that same page: it
  yields exactly the same objects and ends the same way, with the same exception if
  \<open>parse_paper_list\<close> raises one and with none otherwise.
\<close>

theorem ndss_year_page_is_list_page:
  assumes "xpath r ndss_accepted_query = []"
  shows "yielded (ndss_parse_year_page self r) = yielded (ndss_parse_paper_list self r)
       \<and> raised (ndss_parse_year_page self r) = raised (ndss_parse_paper_list self r)"
proof -
  from assms have "\<not> truthy (get (xpath r ndss_accepted_query))"
    by (simp add: get_def truthy_def)
  then show ?thesis by (rule ndss_parse_year_page_fallback)
qed

theorem ndss_year_page_is_list_page_witness:
  "xpath ndss_list_page ndss_accepted_query = []
   \<and> map req_url (requests_of (yielded (ndss_parse_year_page plain_spider ndss_list_page)))
       = [''https://www.ndss-symposium.org/ndss-paper/a/'',
          ''https://www.ndss-symposium.org/ndss-paper/b/'']
   \<and> yielded (ndss_parse_year_page plain_spider ndss_list_page)
       = yielded (ndss_parse_paper_list plain_spider ndss_list_page)
   \<and> raised (ndss_parse_year_page plain_spider ndss_list_page) = None"
proof -
  have h: "xpath ndss_list_page ndss_accepted_query = []"
    by (simp add: ndss_list_page_def ndss_accepted_query_def)
  have l: "map req_url (requests_of (yielded (ndss_parse_paper_list plain_spider ndss_list_page)))
       = [''https://www.ndss-symposium.org/ndss-paper/a/'',
          ''https://www.ndss-symposium.org/ndss-paper/b/'']"
    by code_simp
  have n: "raised (ndss_parse_paper_list plain_spider ndss_list_page) = None" by code_simp
  from ndss_year_page_is_list_page [OF h, of plain_spider] h l n show ?thesis by simp
qed

text \<open>
  C7, as stated: the emitted title is the tag's content with a trailing "- NDSS Symposium"
  removed.  The source calls \<open>title.replace('- NDSS Symposium', '')\<close>, which also removes an
  occurrence in the middle of the title: there the emitted title differs from the one the
  specification describes.
\<close>

theorem ndss_title_mid_occurrence_counterexample:
  "map title (items_of (yielded (ndss_parse_paper_details plain_spider
       (ndss_detail_page ''Attacks - NDSS Symposium Revisited'')))) = [''Attacks  Revisited'']
   \<and> title_as_specified (clean_quotes plain_spider) ''Attacks - NDSS Symposium Revisited''
       = ''Attacks - NDSS Symposium Revisited''"
  by code_simp

text \<open>
  C7, amended.  For every record that \<open>parse_paper_details\<close> yields: when the title tag is
  present with non-empty content, the title is that content with every occurrence of
  "- NDSS Symposium" removed (the non-overlapping ones, from the left), then stripped of
  surrounding whitespace, then passed through \<open>clean_quotes\<close>; when the content ends with the
  suffix and holds it nowhere else, that is the bare title, stripped and quote-normalised;
  when the tag is absent or empty the title is the empty string.  Exactly one record is
  yielded whenever the PDF link, if there is one, resolves.
\<close>

theorem ndss_title_every_occurrence_removed:
  "(\<forall>it. Item it \<in> set (yielded (ndss_parse_paper_details self r)) \<longrightarrow>
       (\<forall>c. get (xpath r ndss_title_query) = Some c \<longrightarrow> c \<noteq> [] \<longrightarrow>
            title it = clean_quotes self (strip (replace ''- NDSS Symposium'' [] c)))
     \<and> (\<forall>t. get (xpath r ndss_title_query) = Some (t @ ''- NDSS Symposium'') \<longrightarrow>
            (\<forall>i<length t. \<not> prefix ''- NDSS Symposium'' (drop i (t @ ''- NDSS Symposium''))) \<longrightarrow>
            title it = clean_quotes self (strip t))
     \<and> (\<not> truthy (get (xpath r ndss_title_query)) \<longrightarrow> title it = []))
   \<and> ((truthy (ndss_pdf_url r) \<longrightarrow> resolves r (ndss_pdf_url r)) \<longrightarrow>
        (\<exists>it. yielded (ndss_parse_paper_details self r) = [Item it]))"
proof (intro conjI allI impI)
  fix it c
  assume "Item it \<in> set (yielded (ndss_parse_paper_details self r))"
    and "get (xpath r ndss_title_query) = Some c" "c \<noteq> []"
  with ndss_details_items [of it self r]
  show "title it = clean_quotes self (strip (replace ''- NDSS Symposium'' [] c))" by auto
next
  fix it t
  assume i: "Item it \<in> set (yielded (ndss_parse_paper_details self r))"
    and g: "get (xpath r ndss_title_query) = Some (t @ ''- NDSS Symposium'')"
    and n: "\<forall>i<length t. \<not> prefix ''- NDSS Symposium'' (drop i (t @ ''- NDSS Symposium''))"
  have "replace_from ''- NDSS Symposium'' [] (t @ ''- NDSS Symposium'') = t @ []"
    by (rule replace_from_only_at_end) (use n in simp_all)
  then have "replace ''- NDSS Symposium'' [] (t @ ''- NDSS Symposium'') = t"
    by (simp add: replace_def)
  with ndss_details_items [OF i] g
  show "title it = clean_quotes self (strip t)" by auto
next
  fix it
  assume "Item it \<in> set (yielded (ndss_parse_paper_details self r))"
    and "\<not> truthy (get (xpath r ndss_title_query))"
  with ndss_details_items [of it self r]
  show "title it = []" by (auto simp: truthy_def split: option.splits)
next
  assume "truthy (ndss_pdf_url r) \<longrightarrow> resolves r (ndss_pdf_url r)"
  from ndss_details_emits [OF this, of self]
  show "\<exists>it. yielded (ndss_parse_paper_details self r) = [Item it]" by blast
qed

theorem ndss_title_every_occurrence_removed_witness:
  "map title (items_of (yielded (ndss_parse_paper_details plain_spider
       (ndss_detail_page ''Attacks - NDSS Symposium Revisited'')))) = [''Attacks  Revisited'']
   \<and> map title (items_of (yielded (ndss_parse_paper_details plain_spider
       (ndss_detail_page ''Hello - NDSS Symposium'')))) = [''Hello'']
   \<and> map title (items_of (yielded (ndss_parse_paper_details plain_spider ndss_list_page))) = [[]]"
proof -
  let ?A = "ndss_detail_page ''Attacks - NDSS Symposium Revisited''"
  let ?B = "ndss_detail_page ''Hello - NDSS Symposium''"
  let ?C = "ndss_list_page"
  note emits = ndss_title_every_occurrence_removed [THEN conjunct2, rule_format]
  note every = ndss_title_every_occurrence_removed
    [THEN conjunct1, rule_format, THEN conjunct1, rule_format]
  note trailing = ndss_title_every_occurrence_removed
    [THEN conjunct1, rule_format, THEN conjunct2, THEN conjunct1, rule_format]
  note absent = ndss_title_every_occurrence_removed
    [THEN conjunct1, rule_format, THEN conjunct2, THEN conjunct2, rule_format]
  have rA: "resolves ?A (ndss_pdf_url ?A)" by code_simp
  have rB: "resolves ?B (ndss_pdf_url ?B)" by code_simp
  have rC: "\<not> truthy (ndss_pdf_url ?C)" by code_simp
  have gA: "get (xpath ?A ndss_title_query) = Some ''Attacks - NDSS Symposium Revisited''"
    by (simp add: ndss_detail_page_def get_def leaf_def)
  have vA: "clean_quotes plain_spider
              (strip (replace ''- NDSS Symposium'' [] ''Attacks - NDSS Symposium Revisited''))
            = ''Attacks  Revisited''"
    by code_simp
  have gB: "get (xpath ?B ndss_title_query) = Some (''Hello '' @ ''- NDSS Symposium'')"
    by (simp add: ndss_detail_page_def get_def leaf_def)
  have nB: "\<not> prefix ''- NDSS Symposium'' (drop i (''Hello '' @ ''- NDSS Symposium''))"
    if "i < length ''Hello ''" for i
    using that by (simp add: less_Suc_eq) auto
  have vB: "clean_quotes plain_spider (strip ''Hello '') = ''Hello''" by code_simp
  have gC: "\<not> truthy (get (xpath ?C ndss_title_query))" by code_simp
  obtain itA where yA: "yielded (ndss_parse_paper_details plain_spider ?A) = [Item itA]"
    using emits [of ?A plain_spider] rA by blast
  then have "Item itA \<in> set (yielded (ndss_parse_paper_details plain_spider ?A))" by simp
  from every [OF this gA] vA have tA: "title itA = ''Attacks  Revisited''" by simp
  obtain itB where yB: "yielded (ndss_parse_paper_details plain_spider ?B) = [Item itB]"
    using emits [of ?B plain_spider] rB by blast
  then have "Item itB \<in> set (yielded (ndss_parse_paper_details plain_spider ?B))" by simp
  from trailing [OF this gB nB] vB have tB: "title itB = ''Hello''" by simp
  obtain itC where yC: "yielded (ndss_parse_paper_details plain_spider ?C) = [Item itC]"
    using emits [of ?C plain_spider] rC by blast
  then have "Item itC \<in> set (yielded (ndss_parse_paper_details plain_spider ?C))" by simp
  from absent [OF this gC] have tC: "title itC = []" .
  from yA tA yB tB yC tC show ?thesis by simp
qed

text \<open>
  C8. On a session page where the query for presentation links finds nothing,
  \<open>OsdiSpider.parse\<close> yields no request; it yields exactly what \<open>parse_paper\<close> yields on that
  same page, which is one record.
\<close>

theorem osdi_session_page_as_paper_page:
  assumes "xpath r osdi_links_query = []"
  shows "requests_of (yielded (osdi_parse self r)) = []
       \<and> yielded (osdi_parse self r) = yielded (osdi_parse_paper self r)
       \<and> (\<exists>it. yielded (osdi_parse self r) = [Item it])"
proof -
  from osdi_paper_emits [of self r] obtain it where "osdi_parse_paper self r = yield_obj (Item it)"
    by blast
  with assms show ?thesis by (simp add: osdi_parse_def Let_def getall_def)
qed

theorem osdi_session_page_as_paper_page_witness:
  "xpath (osdi_paper_page ''li'') osdi_links_query = []
   \<and> requests_of (yielded (osdi_parse plain_spider (osdi_paper_page ''li''))) = []
   \<and> yielded (osdi_parse plain_spider (osdi_paper_page ''li''))
       = yielded (osdi_parse_paper plain_spider (osdi_paper_page ''li''))"
proof -
  have h: "xpath (osdi_paper_page ''li'') osdi_links_query = []"
    by (simp add: osdi_paper_page_def osdi_links_query_def citation_pdf_query_def)
  from osdi_session_page_as_paper_page [OF h, of plain_spider] h show ?thesis by blast
qed



text \<open>
  C10. Where \<open>BaseSpider.__init__\<close> succeeds, constructing \<open>NDSSSpider\<close> raises
  \<open>ValueError\<close> exactly when the year is left out or empty, and succeeds otherwise.
  \<open>OsdiSpider\<close> and \<open>UsenixSpider\<close> take a default for a year left out and add no check of
  their own to \<open>BaseSpider.__init__\<close>.
\<close>

theorem NDSSSpider_init_year_required:
  assumes "base_init (default_arg ''ndss'' c) (default_arg [] y) = Inr s"
  shows "(NDSSSpider_init base_init c y = Inl ValueError) = (default_arg [] y = [])
       \<and> (default_arg [] y \<noteq> [] \<longrightarrow> NDSSSpider_init base_init c y = Inr s)
       \<and> OsdiSpider_init base_init c' None = base_init (default_arg ''osdi'' c') ''2023''
       \<and> UsenixSpider_init base_init c' None = base_init (default_arg [] c') []"
  using assms
  by (simp add: NDSSSpider_init_def OsdiSpider_init_def UsenixSpider_init_def Let_def default_arg_def)

theorem NDSSSpider_init_year_required_witness:
  "NDSSSpider_init storing_init None (Some ''2025'') = storing_init ''ndss'' ''2025''
   \<and> NDSSSpider_init storing_init None None = Inl ValueError
   \<and> OsdiSpider_init storing_init None None = storing_init ''osdi'' ''2023''
   \<and> UsenixSpider_init storing_init None None = storing_init [] []"
proof -
  obtain s where s: "storing_init (default_arg ''ndss'' None) (default_arg [] (Some ''2025'')) = Inr s"
    by (simp add: storing_init_def)
  obtain s' where s': "storing_init (default_arg ''ndss'' None) (default_arg [] None) = Inr s'"
    by (simp add: storing_init_def)
  from NDSSSpider_init_year_required
         [where base_init = storing_init and c = None and y = "Some ''2025''" and s = s
            and c' = None]
       NDSSSpider_init_year_required
         [where base_init = storing_init and c = None and y = None and s = s' and c' = None]
       s s'
  show ?thesis by (simp add: default_arg_def)
qed

end
